theory Spec2Isabelle
  imports Main
begin

section \<open>Data model\<close>

text \<open>
  The two Mongoose schemas (\<^verbatim>\<open>models/Course.js\<close>, \<^verbatim>\<open>models/Student.js\<close>).
  An \<^verbatim>\<open>ObjectId\<close> is a natural number; a field that the schema does not require is
  an \<open>option\<close> (\<open>None\<close>: the field is absent, JavaScript's \<^verbatim>\<open>undefined\<close>).
  Amounts are integer-valued Numbers, which JavaScript adds and compares exactly
  below \<open>2^53\<close>; a stored date is kept as its ISO text.
\<close>

type_synonym objectId = nat
type_synonym date = string

text \<open>
  The value that a form or a request body gives for a Date path, by what Mongoose's cast
  to \<^verbatim>\<open>Date\<close> makes of it: a date, \<^verbatim>\<open>null\<close> for the empty string, or a cast error.
\<close>

datatype dateInput = Castable date | EmptyText | Uncastable

record course =
  c_id :: objectId
  title :: string
  description :: "string option"
  whatYouLearn :: "string option"
  startDate :: "date option"
  endDate :: "date option"
  language :: string

record student =
  s_id :: objectId
  name :: string
  email :: string
  phone :: "string option"
  joinDate :: "date option"
  totalFee :: "int option"
  paidAmount :: "int option"
  reminderMessage :: "string option"
  courseId :: objectId

text \<open>
  What \<^verbatim>\<open>GET /api/courses\<close> sends for one course: the course's own fields and its
  students (\<^verbatim>\<open>{ ...course.toObject(), students }\<close>). The client reads the field with
  \<^verbatim>\<open>c.students?.\<close>, so it may be absent there.
\<close>

record courseView = course +
  students :: "student list option"

section \<open>The dashboard (CourseManagement.jsx)\<close>

subsection \<open>JavaScript operators the component uses\<close>

text \<open>\<^verbatim>\<open>x?.f\<close>: \<^verbatim>\<open>undefined\<close> when \<open>x\<close> is absent or null, \<open>f x\<close> otherwise.\<close>

definition optChain :: "'a option \<Rightarrow> ('a \<Rightarrow> 'b) \<Rightarrow> 'b option" where
  "optChain x f = (case x of None \<Rightarrow> None | Some v \<Rightarrow> Some (f v))"

text \<open>
  \<^verbatim>\<open>v || d\<close> on a number that may be \<^verbatim>\<open>undefined\<close> or \<^verbatim>\<open>NaN\<close> (both \<open>None\<close>):
  \<^verbatim>\<open>undefined\<close>, \<^verbatim>\<open>NaN\<close> and \<open>0\<close> are falsy.
\<close>

definition js_or :: "int option \<Rightarrow> int \<Rightarrow> int" where
  "js_or v d = (case v of None \<Rightarrow> d | Some n \<Rightarrow> if n = 0 then d else n)"

text \<open>\<^verbatim>\<open>a < b\<close> and \<^verbatim>\<open>a >= b\<close> on numbers: false as soon as one side is \<^verbatim>\<open>undefined\<close>.\<close>

definition js_lt :: "int option \<Rightarrow> int option \<Rightarrow> bool" where
  "js_lt a b = (case a of None \<Rightarrow> False | Some x \<Rightarrow> (case b of None \<Rightarrow> False | Some y \<Rightarrow> x < y))"

definition js_ge :: "int option \<Rightarrow> int option \<Rightarrow> bool" where
  "js_ge a b = (case a of None \<Rightarrow> False | Some x \<Rightarrow> (case b of None \<Rightarrow> False | Some y \<Rightarrow> y \<le> x))"

text \<open>\<^verbatim>\<open>xs.reduce(f, init)\<close>.\<close>

definition reduce :: "'a list \<Rightarrow> ('b \<Rightarrow> 'a \<Rightarrow> 'b) \<Rightarrow> 'b \<Rightarrow> 'b" where
  "reduce xs f init = foldl f init xs"

text \<open>\<^verbatim>\<open>s.startsWith(p)\<close>.\<close>

definition startsWith :: "string \<Rightarrow> string \<Rightarrow> bool" where
  "startsWith s p = (take (length p) s = p)"

subsection \<open>Analytics\<close>

text \<open>
  \<^verbatim>\<open>s.paidAmount < s.totalFee ? s.totalFee - s.paidAmount : 0\<close>: the subtraction is
  reached only when both amounts are numbers.
\<close>

definition pendingOf :: "student \<Rightarrow> int" where
  "pendingOf s =
     (if js_lt (paidAmount s) (totalFee s)
      then (case totalFee s of None \<Rightarrow> 0
            | Some t \<Rightarrow> (case paidAmount s of None \<Rightarrow> 0 | Some p \<Rightarrow> t - p))
      else 0)"

definition totalStudents :: "courseView list \<Rightarrow> int" where
  "totalStudents courses =
     reduce courses (\<lambda>sum c. sum + js_or (optChain (students c) (\<lambda>ss. int (length ss))) 0) 0"

definition totalCourses :: "courseView list \<Rightarrow> int" where
  "totalCourses courses = int (length courses)"

definition totalPendingFees :: "courseView list \<Rightarrow> int" where
  "totalPendingFees courses =
     reduce courses
       (\<lambda>sum c. sum +
          js_or (optChain (students c) (\<lambda>ss. reduce ss (\<lambda>sSum s. sSum + pendingOf s) 0)) 0)
       0"

definition reminders :: "courseView list \<Rightarrow> int" where
  "reminders courses =
     reduce courses
       (\<lambda>sum c. sum +
          js_or (optChain (students c)
                   (\<lambda>ss. int (length (filter (\<lambda>s. js_lt (paidAmount s) (totalFee s)) ss)))) 0)
       0"

text \<open>\<^verbatim>\<open>getFeeStatusBadge\<close>: the flag that chooses between the two badges.\<close>

definition isPaid :: "student \<Rightarrow> bool" where
  "isPaid s = js_ge (paidAmount s) (totalFee s)"

text \<open>Every student of a course list, in order; a course without the field has none.\<close>

definition studentsOf :: "courseView \<Rightarrow> student list" where
  "studentsOf c = (case students c of None \<Rightarrow> [] | Some ss \<Rightarrow> ss)"

definition allStudents :: "courseView list \<Rightarrow> student list" where
  "allStudents courses = concat (map studentsOf courses)"

subsection \<open>Saving a student\<close>

text \<open>
  \<^verbatim>\<open>parseInt(s)\<close> on ASCII text: leading white space is skipped, then an optional sign,
  then an optional \<^verbatim>\<open>0x\<close> prefix that selects radix 16, then the longest run of digits;
  with no digit the result is \<^verbatim>\<open>NaN\<close> (\<open>None\<close>).
\<close>

definition isWhiteSpace :: "char \<Rightarrow> bool" where
  "isWhiteSpace c = (of_char c \<in> {9, 10, 11, 12, 13, 32 :: nat})"

definition digitVal :: "nat \<Rightarrow> char \<Rightarrow> nat option" where
  "digitVal radix c =
     (let n = (of_char c :: nat);
          v = (if 48 \<le> n \<and> n \<le> 57 then Some (n - 48)
               else if 97 \<le> n \<and> n \<le> 122 then Some (n - 87)
               else if 65 \<le> n \<and> n \<le> 90 then Some (n - 55)
               else None)
      in case v of None \<Rightarrow> None | Some d \<Rightarrow> if d < radix then Some d else None)"

fun leadingDigits :: "nat \<Rightarrow> string \<Rightarrow> nat list" where
  "leadingDigits radix [] = []"
| "leadingDigits radix (c # cs) =
     (case digitVal radix c of None \<Rightarrow> [] | Some d \<Rightarrow> d # leadingDigits radix cs)"

definition parseInt :: "string \<Rightarrow> int option" where
  "parseInt s =
     (let s1 = dropWhile isWhiteSpace s;
          neg = startsWith s1 ''-'';
          s2 = (if startsWith s1 ''-'' \<or> startsWith s1 ''+'' then drop 1 s1 else s1);
          hex = (startsWith s2 ''0x'' \<or> startsWith s2 ''0X'');
          radix = (if hex then 16 else 10);
          s3 = (if hex then drop 2 s2 else s2);
          ds = leadingDigits radix s3
      in if ds = [] then None
         else Some ((if neg then - 1 else 1) * int (foldl (\<lambda>a d. a * radix + d) 0 ds)))"

text \<open>The fields of the student form that \<^verbatim>\<open>handleSaveStudent\<close> reads.\<close>

record studentForm =
  studentName :: string
  form_email :: string
  form_phone :: string
  form_joinDate :: dateInput
  form_totalFee :: string
  form_paidAmount :: "string option"

text \<open>
  The JSON body of \<^verbatim>\<open>POST /api/students\<close> and \<^verbatim>\<open>PUT /api/students/:id\<close>
  (\<open>None\<close>: the body does not have the field). The handlers pass \<^verbatim>\<open>req.body\<close> on as it
  is, so a body may carry an \<^verbatim>\<open>_id\<close> of the client's choice.
\<close>

record studentBody =
  req_s_id :: "objectId option"
  req_name :: "string option"
  req_email :: "string option"
  req_phone :: "string option"
  req_joinDate :: "dateInput option"
  req_totalFee :: "int option"
  req_paidAmount :: "int option"
  req_reminderMessage :: "string option"
  req_courseId :: "objectId option"

text \<open>\<^verbatim>\<open>form.phone.value.startsWith("+") ? form.phone.value : `+91${form.phone.value}`\<close>\<close>

definition normalizePhone :: "string \<Rightarrow> string" where
  "normalizePhone p = (if startsWith p ''+'' then p else ''+91'' @ p)"

text \<open>\<^verbatim>\<open>parseInt(form.totalFee.value) || 18000\<close> and \<^verbatim>\<open>parseInt(form.paidAmount?.value) || 0\<close>.\<close>

definition formTotalFee :: "studentForm \<Rightarrow> int" where
  "formTotalFee form = js_or (parseInt (form_totalFee form)) 18000"

definition formPaidAmount :: "studentForm \<Rightarrow> int" where
  "formPaidAmount form =
     js_or (case form_paidAmount form of None \<Rightarrow> None | Some v \<Rightarrow> parseInt v) 0"

text \<open>
  The \<^verbatim>\<open>data\<close> object that \<^verbatim>\<open>handleSaveStudent\<close> sends, for the student being edited
  (if any) and the \<^verbatim>\<open>_id\<close> of the selected course.
\<close>

definition saveStudentData :: "studentForm \<Rightarrow> student option \<Rightarrow> objectId \<Rightarrow> studentBody" where
  "saveStudentData form editingStudent selectedCourseId =
     \<lparr> req_s_id = None,
       req_name = Some (studentName form),
       req_email = Some (form_email form),
       req_phone = Some (normalizePhone (form_phone form)),
       req_joinDate = Some (form_joinDate form),
       req_totalFee = Some (formTotalFee form),
       req_paidAmount = Some (formPaidAmount form),
       req_reminderMessage =
         Some (case editingStudent of None \<Rightarrow> []
               | Some e \<Rightarrow> (case reminderMessage e of None \<Rightarrow> [] | Some m \<Rightarrow> m)),
       req_courseId = Some selectedCourseId \<rparr>"

section \<open>The REST backend\<close>

subsection \<open>Store and Mongoose operations\<close>

text \<open>
  The two collections, named as the Mongoose models that access them, and the ObjectId
  generator: \<open>nextId\<close> lies above every id the store has seen, so an id that the generator
  issues is new.
\<close>

record state =
  Course :: "course list"
  Student :: "student list"
  nextId :: objectId

definition init :: state where
  "init = \<lparr> Course = [], Student = [], nextId = 0 \<rparr>"

text \<open>
  Whether an awaited Mongoose call resolves or rejects for a reason outside the store
  (a lost connection, say). \<^verbatim>\<open>deleteMany\<close> works on many documents, so a rejected call
  may already have removed some of them.
\<close>

datatype outcome = Completes | Throws

datatype many_outcome = AllDeleted | ThrowsAfter nat

text \<open>
  The JSON body of \<^verbatim>\<open>POST /api/courses\<close> and \<^verbatim>\<open>PUT /api/courses/:id\<close>: the paths
  of the schema and, if the client sends one, an \<^verbatim>\<open>_id\<close>.
\<close>

record courseBody =
  req_c_id :: "objectId option"
  req_title :: "string option"
  req_description :: "string option"
  req_whatYouLearn :: "string option"
  req_startDate :: "dateInput option"
  req_endDate :: "dateInput option"
  req_language :: "string option"

text \<open>\<^verbatim>\<open>required: true\<close> on a String path: the value must be present and not empty.\<close>

definition requiredString :: "string option \<Rightarrow> bool" where
  "requiredString v = (case v of None \<Rightarrow> False | Some t \<Rightarrow> t \<noteq> [])"

text \<open>A Date path of a body casts unless its value is not a date.\<close>

definition castable :: "dateInput option \<Rightarrow> bool" where
  "castable v = (case v of Some Uncastable \<Rightarrow> False | _ \<Rightarrow> True)"

text \<open>
  The value of a Date path after the body has been applied to a document that had \<open>old\<close>
  there: an absent path keeps \<open>old\<close>, the empty string stores \<^verbatim>\<open>null\<close>.
\<close>

definition castDate :: "dateInput option \<Rightarrow> date option \<Rightarrow> date option" where
  "castDate v old =
     (case v of None \<Rightarrow> old | Some (Castable d) \<Rightarrow> Some d | Some EmptyText \<Rightarrow> None
      | Some Uncastable \<Rightarrow> old)"

text \<open>
  The \<^verbatim>\<open>_id\<close> of a new document: the one the body carries, or else the next one of the
  generator.
\<close>

definition newId :: "objectId option \<Rightarrow> state \<Rightarrow> objectId" where
  "newId given st = (case given of None \<Rightarrow> nextId st | Some j \<Rightarrow> j)"

text \<open>
  \<^verbatim>\<open>new Course(req.body)\<close> followed by the validation that \<^verbatim>\<open>save()\<close> runs first:
  \<open>None\<close> when validation fails, because the title is missing or a date does not cast.
\<close>

definition newCourse :: "objectId \<Rightarrow> courseBody \<Rightarrow> course option" where
  "newCourse i b =
     (case req_title b of
        None \<Rightarrow> None
      | Some t \<Rightarrow>
          if requiredString (req_title b) \<and> castable (req_startDate b) \<and> castable (req_endDate b)
          then Some \<lparr> c_id = i, title = t, description = req_description b,
                      whatYouLearn = req_whatYouLearn b,
                      startDate = castDate (req_startDate b) None,
                      endDate = castDate (req_endDate b) None,
                      language = (case req_language b of None \<Rightarrow> ''English'' | Some l \<Rightarrow> l) \<rparr>
          else None)"

text \<open>
  \<^verbatim>\<open>new Student(req.body)\<close> and its validation: name, email and courseId are required,
  and joinDate must cast.
\<close>

definition newStudent :: "objectId \<Rightarrow> studentBody \<Rightarrow> student option" where
  "newStudent i b =
     (case (req_name b, req_email b, req_courseId b) of
        (Some n, Some e, Some cid) \<Rightarrow>
          if requiredString (req_name b) \<and> requiredString (req_email b) \<and> castable (req_joinDate b)
          then Some \<lparr> s_id = i, name = n, email = e, phone = req_phone b,
                      joinDate = castDate (req_joinDate b) None, totalFee = req_totalFee b,
                      paidAmount = req_paidAmount b,
                      reminderMessage = req_reminderMessage b, courseId = cid \<rparr>
          else None
      | _ \<Rightarrow> None)"

text \<open>
  The update that \<^verbatim>\<open>findByIdAndUpdate\<close> applies: the fields of the body are set. The
  \<^verbatim>\<open>_id\<close> of a document never changes.
\<close>

definition orKeep :: "'a option \<Rightarrow> 'a \<Rightarrow> 'a" where
  "orKeep v old = (case v of None \<Rightarrow> old | Some x \<Rightarrow> x)"

definition orKeepOpt :: "'a option \<Rightarrow> 'a option \<Rightarrow> 'a option" where
  "orKeepOpt v old = (case v of None \<Rightarrow> old | Some x \<Rightarrow> Some x)"

definition updateCourse :: "courseBody \<Rightarrow> course \<Rightarrow> course" where
  "updateCourse b c =
     c \<lparr> title := orKeep (req_title b) (title c),
         description := orKeepOpt (req_description b) (description c),
         whatYouLearn := orKeepOpt (req_whatYouLearn b) (whatYouLearn c),
         startDate := castDate (req_startDate b) (startDate c),
         endDate := castDate (req_endDate b) (endDate c),
         language := orKeep (req_language b) (language c) \<rparr>"

definition updateStudent :: "studentBody \<Rightarrow> student \<Rightarrow> student" where
  "updateStudent b s =
     s \<lparr> name := orKeep (req_name b) (name s),
         email := orKeep (req_email b) (email s),
         phone := orKeepOpt (req_phone b) (phone s),
         joinDate := castDate (req_joinDate b) (joinDate s),
         totalFee := orKeepOpt (req_totalFee b) (totalFee s),
         paidAmount := orKeepOpt (req_paidAmount b) (paidAmount s),
         reminderMessage := orKeepOpt (req_reminderMessage b) (reminderMessage s),
         courseId := orKeep (req_courseId b) (courseId s) \<rparr>"

text \<open>
  An update may not give a stored document another \<^verbatim>\<open>_id\<close>: the database rejects a body
  whose \<^verbatim>\<open>_id\<close> differs from the \<open>i\<close> of a document that the update has found.
\<close>

definition changesId :: "objectId option \<Rightarrow> objectId \<Rightarrow> objectId list \<Rightarrow> bool" where
  "changesId given i ids = (case given of None \<Rightarrow> False | Some j \<Rightarrow> j \<noteq> i \<and> i \<in> set ids)"

text \<open>
  \<^verbatim>\<open>Model.findByIdAndUpdate(id, body, { new: true })\<close> over a collection: the first
  document that matches is replaced; the result is the collection and the updated
  document, or \<^verbatim>\<open>null\<close> when none matches.
\<close>

fun findOneAndUpdate :: "('a \<Rightarrow> bool) \<Rightarrow> ('a \<Rightarrow> 'a) \<Rightarrow> 'a list \<Rightarrow> 'a list \<times> 'a option" where
  "findOneAndUpdate P f [] = ([], None)"
| "findOneAndUpdate P f (x # xs) =
     (if P x then (f x # xs, Some (f x))
      else (case findOneAndUpdate P f xs of (ys, r) \<Rightarrow> (x # ys, r)))"

text \<open>\<^verbatim>\<open>Model.findByIdAndDelete(id)\<close>: the first document that matches is removed.\<close>

fun findOneAndDelete :: "('a \<Rightarrow> bool) \<Rightarrow> 'a list \<Rightarrow> 'a list" where
  "findOneAndDelete P [] = []"
| "findOneAndDelete P (x # xs) = (if P x then xs else x # findOneAndDelete P xs)"

text \<open>\<^verbatim>\<open>Model.deleteMany(filter)\<close>: every matching document is removed.\<close>

definition deleteMany :: "('a \<Rightarrow> bool) \<Rightarrow> 'a list \<Rightarrow> 'a list" where
  "deleteMany P xs = filter (\<lambda>x. \<not> P x) xs"

text \<open>A \<^verbatim>\<open>deleteMany\<close> that rejects after it has removed the first \<open>k\<close> matching documents.\<close>

fun deleteSome :: "nat \<Rightarrow> ('a \<Rightarrow> bool) \<Rightarrow> 'a list \<Rightarrow> 'a list" where
  "deleteSome 0 P xs = xs"
| "deleteSome (Suc k) P [] = []"
| "deleteSome (Suc k) P (x # xs) =
     (if P x then deleteSome k P xs else x # deleteSome (Suc k) P xs)"

subsection \<open>Responses\<close>

text \<open>
  Every handler catches whatever its \<^verbatim>\<open>try\<close> block throws and answers
  \<^verbatim>\<open>{ message: error.message }\<close>; \<open>error\<close> records what was thrown: the validation error
  of \<^verbatim>\<open>save()\<close>, the cast error of an update, or a rejected database call.
\<close>

datatype error = ValidationError | CastError | StorageError

datatype json =
    CourseViews "courseView list"
  | CourseViewJson courseView
  | CourseJson "course option"
  | StudentJson "student option"
  | Message string
  | ErrorMessage error

datatype response = Response nat json

fun status :: "response \<Rightarrow> nat" where
  "status (Response n b) = n"

fun body :: "response \<Rightarrow> json" where
  "body (Response n b) = b"

subsection \<open>Route handlers\<close>

text \<open>\<^verbatim>\<open>{ ...course.toObject(), students }\<close>\<close>

definition withStudents :: "course \<Rightarrow> student list \<Rightarrow> courseView" where
  "withStudents c ss = course.extend c (courseView.fields (Some ss))"

text \<open>\<^verbatim>\<open>app.get('/api/courses')\<close>\<close>

definition get_courses :: "state \<Rightarrow> outcome \<Rightarrow> state \<times> response" where
  "get_courses st out =
     (case out of
        Throws \<Rightarrow> (st, Response 500 (ErrorMessage StorageError))
      | Completes \<Rightarrow>
          (st, Response 200 (CourseViews
                 (map (\<lambda>c. withStudents c (filter (\<lambda>s. courseId s = c_id c) (Student st)))
                      (Course st)))))"

text \<open>
  \<^verbatim>\<open>app.post('/api/courses')\<close>. The insert of \<^verbatim>\<open>save()\<close> is rejected when the \<^verbatim>\<open>_id\<close> is
  already in the collection.
\<close>

definition post_course :: "state \<Rightarrow> courseBody \<Rightarrow> outcome \<Rightarrow> state \<times> response" where
  "post_course st b out =
     (let i = newId (req_c_id b) st;
          st1 = st \<lparr> nextId := Suc (max (nextId st) i) \<rparr> in
      case newCourse i b of
        None \<Rightarrow> (st1, Response 400 (ErrorMessage ValidationError))
      | Some c \<Rightarrow>
          (case out of
             Throws \<Rightarrow> (st1, Response 400 (ErrorMessage StorageError))
           | Completes \<Rightarrow>
               if i \<in> set (map c_id (Course st))
               then (st1, Response 400 (ErrorMessage StorageError))
               else (st1 \<lparr> Course := Course st1 @ [c] \<rparr>,
                     Response 201 (CourseViewJson (withStudents c [])))))"

text \<open>\<^verbatim>\<open>app.put('/api/courses/:id')\<close>\<close>

definition put_course :: "state \<Rightarrow> objectId \<Rightarrow> courseBody \<Rightarrow> outcome \<Rightarrow> state \<times> response" where
  "put_course st i b out =
     (if \<not> (castable (req_startDate b) \<and> castable (req_endDate b))
      then (st, Response 400 (ErrorMessage CastError))
      else
        (case out of
           Throws \<Rightarrow> (st, Response 400 (ErrorMessage StorageError))
         | Completes \<Rightarrow>
             if changesId (req_c_id b) i (map c_id (Course st))
             then (st, Response 400 (ErrorMessage StorageError))
             else
               (case findOneAndUpdate (\<lambda>c. c_id c = i) (updateCourse b) (Course st) of
                  (cs, updatedCourse) \<Rightarrow>
                    (st \<lparr> Course := cs \<rparr>, Response 200 (CourseJson updatedCourse)))))"

text \<open>\<^verbatim>\<open>app.delete('/api/courses/:id')\<close>\<close>

definition delete_course :: "state \<Rightarrow> objectId \<Rightarrow> many_outcome \<Rightarrow> outcome \<Rightarrow> state \<times> response" where
  "delete_course st i outStudents outCourse =
     (case outStudents of
        ThrowsAfter k \<Rightarrow>
          (st \<lparr> Student := deleteSome k (\<lambda>s. courseId s = i) (Student st) \<rparr>,
           Response 500 (ErrorMessage StorageError))
      | AllDeleted \<Rightarrow>
          (let st1 = st \<lparr> Student := deleteMany (\<lambda>s. courseId s = i) (Student st) \<rparr> in
           case outCourse of
             Throws \<Rightarrow> (st1, Response 500 (ErrorMessage StorageError))
           | Completes \<Rightarrow>
               (st1 \<lparr> Course := findOneAndDelete (\<lambda>c. c_id c = i) (Course st1) \<rparr>,
                Response 200 (Message ''Course and related students deleted''))))"

text \<open>\<^verbatim>\<open>app.post('/api/students')\<close>\<close>

definition post_student :: "state \<Rightarrow> studentBody \<Rightarrow> outcome \<Rightarrow> state \<times> response" where
  "post_student st b out =
     (let i = newId (req_s_id b) st;
          st1 = st \<lparr> nextId := Suc (max (nextId st) i) \<rparr> in
      case newStudent i b of
        None \<Rightarrow> (st1, Response 400 (ErrorMessage ValidationError))
      | Some s \<Rightarrow>
          (case out of
             Throws \<Rightarrow> (st1, Response 400 (ErrorMessage StorageError))
           | Completes \<Rightarrow>
               if i \<in> set (map s_id (Student st))
               then (st1, Response 400 (ErrorMessage StorageError))
               else (st1 \<lparr> Student := Student st1 @ [s] \<rparr>,
                     Response 201 (StudentJson (Some s)))))"

text \<open>\<^verbatim>\<open>app.put('/api/students/:id')\<close>\<close>

definition put_student :: "state \<Rightarrow> objectId \<Rightarrow> studentBody \<Rightarrow> outcome \<Rightarrow> state \<times> response" where
  "put_student st i b out =
     (if \<not> castable (req_joinDate b)
      then (st, Response 400 (ErrorMessage CastError))
      else
        (case out of
           Throws \<Rightarrow> (st, Response 400 (ErrorMessage StorageError))
         | Completes \<Rightarrow>
             if changesId (req_s_id b) i (map s_id (Student st))
             then (st, Response 400 (ErrorMessage StorageError))
             else
               (case findOneAndUpdate (\<lambda>s. s_id s = i) (updateStudent b) (Student st) of
                  (ss, updatedStudent) \<Rightarrow>
                    (st \<lparr> Student := ss \<rparr>, Response 200 (StudentJson updatedStudent)))))"

text \<open>\<^verbatim>\<open>app.delete('/api/students/:id')\<close>\<close>

definition delete_student :: "state \<Rightarrow> objectId \<Rightarrow> outcome \<Rightarrow> state \<times> response" where
  "delete_student st i out =
     (case out of
        Throws \<Rightarrow> (st, Response 500 (ErrorMessage StorageError))
      | Completes \<Rightarrow>
          (st \<lparr> Student := findOneAndDelete (\<lambda>s. s_id s = i) (Student st) \<rparr>,
           Response 200 (Message ''Student deleted'')))"

subsection \<open>Requests and reachable states\<close>

text \<open>One request to the server, with the outcome of the database calls it makes.\<close>

datatype request =
    GetCourses outcome
  | PostCourse courseBody outcome
  | PutCourse objectId courseBody outcome
  | DeleteCourse objectId many_outcome outcome
  | PostStudent studentBody outcome
  | PutStudent objectId studentBody outcome
  | DeleteStudent objectId outcome

fun handle :: "state \<Rightarrow> request \<Rightarrow> state \<times> response" where
  "handle st (GetCourses out) = get_courses st out"
| "handle st (PostCourse b out) = post_course st b out"
| "handle st (PutCourse i b out) = put_course st i b out"
| "handle st (DeleteCourse i outS outC) = delete_course st i outS outC"
| "handle st (PostStudent b out) = post_student st b out"
| "handle st (PutStudent i b out) = put_student st i b out"
| "handle st (DeleteStudent i out) = delete_student st i out"

text \<open>The state after a sequence of requests.\<close>

fun run :: "state \<Rightarrow> request list \<Rightarrow> state" where
  "run st [] = st"
| "run st (r # rs) = run (fst (handle st r)) rs"

text \<open>
  What the store guarantees in every state: an \<^verbatim>\<open>_id\<close> is unique in its collection and
  lies below the next id of the generator.
\<close>

definition wellFormed :: "state \<Rightarrow> bool" where
  "wellFormed st =
     (distinct (map c_id (Course st)) \<and> list_all (\<lambda>c. c_id c < nextId st) (Course st) \<and>
      distinct (map s_id (Student st)) \<and> list_all (\<lambda>s. s_id s < nextId st) (Student st))"

text \<open>A Create Course request that carries the \<^verbatim>\<open>_id\<close> \<open>i\<close>.\<close>

fun createsCourse :: "objectId \<Rightarrow> request \<Rightarrow> bool" where
  "createsCourse i (PostCourse b out) = (req_c_id b = Some i)"
| "createsCourse i _ = False"

text \<open>The id \<open>i\<close> lies below the generator and no stored course carries it.\<close>

definition gone :: "objectId \<Rightarrow> state \<Rightarrow> bool" where
  "gone i st = (i \<notin> c_id ` set (Course st) \<and> i < nextId st)"

text \<open>No stored student has a total fee of 0.\<close>

definition noZeroFee :: "state \<Rightarrow> bool" where
  "noZeroFee st = list_all (\<lambda>s. totalFee s \<noteq> Some 0) (Student st)"

text \<open>The students that a response to \<^verbatim>\<open>GET /api/courses\<close> carries.\<close>

definition listed :: "response \<Rightarrow> student list" where
  "listed r = (case body r of CourseViews vs \<Rightarrow> allStudents vs | _ \<Rightarrow> [])"


section \<open>The scenario of the specification\<close>

text \<open>
  Course \<open>Math 101\<close> with two students entered through the form: Alice has paid her fee
  of 18000, Bob has paid 5000 of 18000 and gives his number with a country code.
\<close>

definition mathBody :: courseBody where
  "mathBody = \<lparr> req_c_id = None, req_title = Some ''Math 101'', req_description = None,
                req_whatYouLearn = None, req_startDate = None, req_endDate = None,
                req_language = None \<rparr>"

definition aliceForm :: studentForm where
  "aliceForm = \<lparr> studentName = ''Alice'', form_email = ''alice@example.com'',
                 form_phone = ''9876543210'', form_joinDate = Castable ''2024-01-01'',
                 form_totalFee = ''18000'', form_paidAmount = Some ''18000'' \<rparr>"

definition bobForm :: studentForm where
  "bobForm = \<lparr> studentName = ''Bob'', form_email = ''bob@example.com'',
               form_phone = ''+19876543210'', form_joinDate = Castable ''2024-01-02'',
               form_totalFee = ''18000'', form_paidAmount = Some ''5000'' \<rparr>"

definition math :: course where
  "math = \<lparr> c_id = 0, title = ''Math 101'', description = None, whatYouLearn = None,
            startDate = None, endDate = None, language = ''English'' \<rparr>"

definition alice :: student where
  "alice = \<lparr> s_id = 1, name = ''Alice'', email = ''alice@example.com'',
             phone = Some ''+919876543210'', joinDate = Some ''2024-01-01'',
             totalFee = Some 18000, paidAmount = Some 18000,
             reminderMessage = Some [], courseId = 0 \<rparr>"

definition bob :: student where
  "bob = \<lparr> s_id = 2, name = ''Bob'', email = ''bob@example.com'',
           phone = Some ''+19876543210'', joinDate = Some ''2024-01-02'',
           totalFee = Some 18000, paidAmount = Some 5000,
           reminderMessage = Some [], courseId = 0 \<rparr>"

definition scenario :: "request list" where
  "scenario =
     [PostCourse mathBody Completes,
      PostStudent (saveStudentData aliceForm None 0) Completes,
      PostStudent (saveStudentData bobForm None 0) Completes]"

definition scenarioState :: state where
  "scenarioState = \<lparr> Course = [math], Student = [alice, bob], nextId = 3 \<rparr>"

text \<open>A second course, \<open>Physics\<close>, with one student, Carol, beside the first.\<close>

definition physics :: course where
  "physics = \<lparr> c_id = 3, title = ''Physics'', description = None, whatYouLearn = None,
               startDate = None, endDate = None, language = ''English'' \<rparr>"

definition carol :: student where
  "carol = \<lparr> s_id = 4, name = ''Carol'', email = ''carol@example.com'',
             phone = Some ''+919876500000'', joinDate = Some ''2024-01-03'',
             totalFee = Some 18000, paidAmount = Some 0,
             reminderMessage = Some [], courseId = 3 \<rparr>"

definition twoCourses :: state where
  "twoCourses = \<lparr> Course = [math, physics], Student = [alice, carol, bob], nextId = 5 \<rparr>"

text \<open>A student has both amounts.\<close>

definition hasAmounts :: "student \<Rightarrow> bool" where
  "hasAmounts s = (paidAmount s \<noteq> None \<and> totalFee s \<noteq> None)"


section \<open>Auxiliary facts\<close>

subsection \<open>Folding the aggregates\<close>

lemma reduce_sum_list:
  "reduce xs (\<lambda>acc x. acc + f x) (a::int) = a + sum_list (map f xs)"
  unfolding reduce_def by (induction xs arbitrary: a) simp_all

lemma totalPendingFees_sum:
  "totalPendingFees cs = sum_list (map pendingOf (allStudents cs))"
  unfolding totalPendingFees_def allStudents_def reduce_sum_list
  by (induction cs) (simp_all add: studentsOf_def optChain_def js_or_def split: option.splits)

lemma totalStudents_length:
  "totalStudents cs = int (length (allStudents cs))"
  unfolding totalStudents_def allStudents_def reduce_sum_list
  by (induction cs) (simp_all add: studentsOf_def optChain_def js_or_def split: option.splits)

lemma reminders_length:
  "reminders cs =
     int (length (filter (\<lambda>s. js_lt (paidAmount s) (totalFee s)) (allStudents cs)))"
  unfolding reminders_def allStudents_def reduce_sum_list
  by (induction cs) (simp_all add: studentsOf_def optChain_def js_or_def split: option.splits)

lemma allStudents_without:
  "students c = None \<Longrightarrow> allStudents (xs @ c # ys) = allStudents (xs @ ys)"
  by (simp add: allStudents_def studentsOf_def)

lemma pendingOf_amounts:
  "paidAmount s = Some p \<Longrightarrow> totalFee s = Some t \<Longrightarrow> pendingOf s = max 0 (t - p)"
  by (simp add: pendingOf_def js_lt_def)

lemma pendingOf_nonneg: "0 \<le> pendingOf s"
  by (simp add: pendingOf_def js_lt_def split: option.splits)

lemma pendingOf_paid: "js_ge (paidAmount s) (totalFee s) \<Longrightarrow> pendingOf s = 0"
  by (simp add: pendingOf_def js_lt_def js_ge_def split: option.splits)

lemma hasAmounts_lt_iff: "hasAmounts s \<Longrightarrow> js_lt (paidAmount s) (totalFee s) = (\<not> isPaid s)"
  by (auto simp: hasAmounts_def js_lt_def isPaid_def js_ge_def)

subsection \<open>Views\<close>

lemma students_withStudents: "students (withStudents c ss) = Some ss"
  by (simp add: withStudents_def course.defs courseView.defs)

lemma studentsOf_withStudents: "studentsOf (withStudents c ss) = ss"
  by (simp add: studentsOf_def students_withStudents)

lemma listed_get_courses:
  "s \<in> set (listed (snd (get_courses st out))) \<Longrightarrow> courseId s \<in> c_id ` set (Course st)"
  by (cases out)
     (auto simp: get_courses_def listed_def allStudents_def studentsOf_withStudents)

subsection \<open>Collections\<close>

lemma findOneAndUpdate_none:
  "list_all (\<lambda>x. \<not> P x) xs \<Longrightarrow> findOneAndUpdate P f xs = (xs, None)"
  by (induction xs) auto

lemma findOneAndUpdate_keys:
  "(\<And>x. g (f x) = g x) \<Longrightarrow> map g (fst (findOneAndUpdate P f xs)) = map g xs"
  by (induction xs) (auto split: prod.splits)

lemma findOneAndUpdate_result:
  "findOneAndUpdate P f xs = (ys, Some y) \<Longrightarrow> \<exists>x \<in> set xs. y = f x"
  by (induction xs arbitrary: ys) (auto split: if_splits prod.splits)

lemma findOneAndDelete_none:
  "list_all (\<lambda>x. \<not> P x) xs \<Longrightarrow> findOneAndDelete P xs = xs"
  by (induction xs) auto

lemma findOneAndDelete_subset: "set (findOneAndDelete P xs) \<subseteq> set xs"
  by (induction xs) auto

lemma findOneAndDelete_distinct:
  "distinct (map g xs) \<Longrightarrow> distinct (map g (findOneAndDelete P xs))"
  by (induction xs) (auto dest: findOneAndDelete_subset[THEN subsetD])

lemma findOneAndDelete_filter:
  "distinct (map g xs) \<Longrightarrow> findOneAndDelete (\<lambda>x. g x = i) xs = filter (\<lambda>x. g x \<noteq> i) xs"
proof (induction xs)
  case Nil
  then show ?case by simp
next
  case (Cons x xs)
  show ?case
  proof (cases "g x = i")
    case True
    with Cons.prems have "list_all (\<lambda>y. g y \<noteq> i) xs"
      by (auto simp: list_all_iff image_iff)
    then have "filter (\<lambda>y. g y \<noteq> i) xs = xs"
      by (simp add: list_all_iff)
    with True show ?thesis by simp
  next
    case False
    with Cons show ?thesis by simp
  qed
qed

lemma deleteSome_subset: "set (deleteSome k P xs) \<subseteq> set xs"
  by (induction k P xs rule: deleteSome.induct) auto

lemma deleteSome_distinct:
  "distinct (map g xs) \<Longrightarrow> distinct (map g (deleteSome k P xs))"
  by (induction k P xs rule: deleteSome.induct) (auto dest: deleteSome_subset[THEN subsetD])

subsection \<open>Evaluating the scenario\<close>

lemma parseInt_18000: "parseInt ''18000'' = Some 18000"
  by (simp add: parseInt_def startsWith_def isWhiteSpace_def digitVal_def)

lemma parseInt_5000: "parseInt ''5000'' = Some 5000"
  by (simp add: parseInt_def startsWith_def isWhiteSpace_def digitVal_def)

lemma parseInt_0: "parseInt ''0'' = Some 0"
  by (simp add: parseInt_def startsWith_def isWhiteSpace_def digitVal_def)

lemma parseInt_empty: "parseInt [] = None"
  by (simp add: parseInt_def startsWith_def)

lemma normalizePhone_local: "normalizePhone ''9876543210'' = ''+919876543210''"
  by (simp add: normalizePhone_def startsWith_def)

lemma normalizePhone_international: "normalizePhone ''+19876543210'' = ''+19876543210''"
  by (simp add: normalizePhone_def startsWith_def)

lemma run_scenario: "run init scenario = scenarioState"
  by (simp add: scenario_def scenarioState_def init_def post_course_def post_student_def
      newCourse_def newStudent_def saveStudentData_def mathBody_def aliceForm_def bobForm_def
      math_def alice_def bob_def requiredString_def formTotalFee_def formPaidAmount_def
      parseInt_18000 parseInt_5000 normalizePhone_local normalizePhone_international js_or_def
      newId_def castable_def castDate_def)

lemma scenario_views:
  "get_courses scenarioState Completes =
     (scenarioState, Response 200 (CourseViews [withStudents math [alice, bob]]))"
  by (simp add: get_courses_def scenarioState_def math_def alice_def bob_def)

subsection \<open>Invariants of the store\<close>

lemma c_id_updateCourse: "c_id (updateCourse b c) = c_id c"
  by (simp add: updateCourse_def)

lemma s_id_updateStudent: "s_id (updateStudent b s) = s_id s"
  by (simp add: updateStudent_def)

lemma newCourse_id: "newCourse i b = Some c \<Longrightarrow> c_id c = i"
  by (auto simp: newCourse_def split: option.splits if_splits)

lemma newStudent_id: "newStudent i b = Some s \<Longrightarrow> s_id s = i"
  by (auto simp: newStudent_def split: option.splits if_splits)

lemma keys_below:
  "list_all (\<lambda>x. g x < (n::nat)) xs \<longleftrightarrow> (\<forall>k \<in> set (map g xs). k < n)"
  by (auto simp: list_all_iff)

lemma wellFormed_bump: "wellFormed st \<Longrightarrow> wellFormed (st \<lparr> nextId := Suc (max (nextId st) i) \<rparr>)"
  by (auto simp: wellFormed_def list_all_iff)

lemma wellFormed_add_course:
  assumes "wellFormed st" and "c_id c = i" and "i \<notin> set (map c_id (Course st))"
  shows "wellFormed (st \<lparr> nextId := Suc (max (nextId st) i), Course := Course st @ [c] \<rparr>)"
  using assms by (auto simp: wellFormed_def list_all_iff)

lemma wellFormed_add_student:
  assumes "wellFormed st" and "s_id s = i" and "i \<notin> set (map s_id (Student st))"
  shows "wellFormed (st \<lparr> nextId := Suc (max (nextId st) i), Student := Student st @ [s] \<rparr>)"
  using assms by (auto simp: wellFormed_def list_all_iff)

lemma wellFormed_post_course: "wellFormed st \<Longrightarrow> wellFormed (fst (post_course st b out))"
  by (cases out)
     (auto simp: post_course_def Let_def split: option.splits
           intro: wellFormed_bump wellFormed_add_course dest: newCourse_id)

lemma wellFormed_post_student: "wellFormed st \<Longrightarrow> wellFormed (fst (post_student st b out))"
  by (cases out)
     (auto simp: post_student_def Let_def split: option.splits
           intro: wellFormed_bump wellFormed_add_student dest: newStudent_id)

lemma fst_put_course:
  "fst (put_course st i b out) = st \<or>
   fst (put_course st i b out)
     = st \<lparr> Course := fst (findOneAndUpdate (\<lambda>c. c_id c = i) (updateCourse b) (Course st)) \<rparr>"
  by (cases out) (simp_all add: put_course_def split: prod.splits)

lemma fst_put_student:
  "fst (put_student st i b out) = st \<or>
   fst (put_student st i b out)
     = st \<lparr> Student := fst (findOneAndUpdate (\<lambda>s. s_id s = i) (updateStudent b) (Student st)) \<rparr>"
  by (cases out) (simp_all add: put_student_def split: prod.splits)

lemma wellFormed_put_course: "wellFormed st \<Longrightarrow> wellFormed (fst (put_course st i b out))"
proof -
  assume w: "wellFormed st"
  let ?cs = "fst (findOneAndUpdate (\<lambda>c. c_id c = i) (updateCourse b) (Course st))"
  have k: "map c_id ?cs = map c_id (Course st)"
    by (rule findOneAndUpdate_keys) (rule c_id_updateCourse)
  with w have "wellFormed (st \<lparr> Course := ?cs \<rparr>)"
    by (simp add: wellFormed_def keys_below)
  with w fst_put_course [of st i b out] show ?thesis
    by auto
qed

lemma wellFormed_put_student: "wellFormed st \<Longrightarrow> wellFormed (fst (put_student st i b out))"
proof -
  assume w: "wellFormed st"
  let ?ss = "fst (findOneAndUpdate (\<lambda>s. s_id s = i) (updateStudent b) (Student st))"
  have k: "map s_id ?ss = map s_id (Student st)"
    by (rule findOneAndUpdate_keys) (rule s_id_updateStudent)
  with w have "wellFormed (st \<lparr> Student := ?ss \<rparr>)"
    by (simp add: wellFormed_def keys_below)
  with w fst_put_student [of st i b out] show ?thesis
    by auto
qed

lemma list_all_subset: "set ys \<subseteq> set xs \<Longrightarrow> list_all Q xs \<Longrightarrow> list_all Q ys"
  by (auto simp: list_all_iff)

lemma wellFormed_delete_student: "wellFormed st \<Longrightarrow> wellFormed (fst (delete_student st i out))"
  by (cases out)
     (auto simp: wellFormed_def delete_student_def findOneAndDelete_distinct
           intro: list_all_subset [OF findOneAndDelete_subset])

lemma wellFormed_delete_course: "wellFormed st \<Longrightarrow> wellFormed (fst (delete_course st i outS outC))"
  by (cases outS; cases outC)
     (auto simp: wellFormed_def delete_course_def Let_def deleteMany_def findOneAndDelete_distinct
           deleteSome_distinct distinct_map_filter
           intro: list_all_subset [OF findOneAndDelete_subset]
                  list_all_subset [OF deleteSome_subset] list_all_subset [OF filter_is_subset])

lemma wellFormed_handle: "wellFormed st \<Longrightarrow> wellFormed (fst (handle st r))"
  by (cases r)
     (simp_all add: wellFormed_post_course wellFormed_post_student wellFormed_put_course wellFormed_put_student
        wellFormed_delete_student wellFormed_delete_course get_courses_def split: outcome.splits)

lemma wellFormed_run: "wellFormed st \<Longrightarrow> wellFormed (run st rs)"
  by (induction rs arbitrary: st) (simp_all add: wellFormed_handle)

lemma wellFormed_init: "wellFormed init"
  by (simp add: wellFormed_def init_def)

lemma wellFormed_reachable: "wellFormed (run init rs)"
  by (rule wellFormed_run) (rule wellFormed_init)

lemma wellFormed_issued:
  "wellFormed st \<Longrightarrow> i \<in> c_id ` set (Course st) \<Longrightarrow> i < nextId st"
  by (auto simp: wellFormed_def list_all_iff)

lemma gone_handle: "gone i st \<Longrightarrow> \<not> createsCourse i r \<Longrightarrow> gone i (fst (handle st r))"
proof (cases r)
  case (GetCourses out)
  then show "gone i st \<Longrightarrow> ?thesis"
    by (simp add: get_courses_def split: outcome.splits)
next
  case (PostCourse b out)
  then show "gone i st \<Longrightarrow> \<not> createsCourse i r \<Longrightarrow> ?thesis"
    by (cases out)
       (auto simp: gone_def post_course_def newId_def Let_def
             split: option.splits dest: newCourse_id)
next
  case (PutCourse j b out)
  assume g: "gone i st"
  have "map c_id (fst (findOneAndUpdate (\<lambda>c. c_id c = j) (updateCourse b) (Course st)))
          = map c_id (Course st)"
    by (rule findOneAndUpdate_keys) (rule c_id_updateCourse)
  then have "c_id ` set (fst (findOneAndUpdate (\<lambda>c. c_id c = j) (updateCourse b) (Course st)))
          = c_id ` set (Course st)"
    by (metis set_map)
  with g have "gone i (st \<lparr> Course :=
      fst (findOneAndUpdate (\<lambda>c. c_id c = j) (updateCourse b) (Course st)) \<rparr>)"
    by (simp add: gone_def)
  with g PutCourse fst_put_course [of st j b out] show ?thesis
    by auto
next
  case (DeleteCourse j outS outC)
  then show "gone i st \<Longrightarrow> ?thesis"
    by (cases outS; cases outC)
       (auto simp: gone_def delete_course_def Let_def dest: findOneAndDelete_subset [THEN subsetD])
next
  case (PostStudent b out)
  then show "gone i st \<Longrightarrow> ?thesis"
    by (cases out) (auto simp: gone_def post_student_def Let_def split: option.splits)
next
  case (PutStudent j b out)
  assume g: "gone i st"
  then have "gone i (st \<lparr> Student :=
      fst (findOneAndUpdate (\<lambda>s. s_id s = j) (updateStudent b) (Student st)) \<rparr>)"
    by (simp add: gone_def)
  with g PutStudent fst_put_student [of st j b out] show ?thesis
    by auto
next
  case (DeleteStudent j out)
  then show "gone i st \<Longrightarrow> ?thesis"
    by (cases out) (auto simp: gone_def delete_student_def)
qed

lemma gone_run: "gone i st \<Longrightarrow> list_all (\<lambda>r. \<not> createsCourse i r) rs \<Longrightarrow> gone i (run st rs)"
  by (induction rs arbitrary: st) (simp_all add: gone_handle)

lemma findOneAndUpdate_list_all:
  "list_all Q xs \<Longrightarrow> (\<And>x. Q (f x)) \<Longrightarrow> list_all Q (fst (findOneAndUpdate P f xs))"
  by (induction xs) (auto split: prod.splits)

lemma wellFormed_twoCourses: "wellFormed twoCourses"
  by (simp add: wellFormed_def twoCourses_def math_def physics_def alice_def bob_def carol_def)

section \<open>Dashboard aggregates\<close>

text \<open>
  Claim C2. For every list of courses with their nested students, \<open>totalPendingFees\<close> is
  the sum over all students of the student's contribution; for a student whose two
  amounts are numbers the contribution is \<open>max 0 (totalFee - paidAmount)\<close>; no
  contribution is negative, and a student with \<open>paidAmount \<ge> totalFee\<close> contributes 0.
\<close>

theorem totalPendingFees_is_sum_of_pending:
  "totalPendingFees courses = sum_list (map pendingOf (allStudents courses))
   \<and> (paidAmount s = Some p \<and> totalFee s = Some t \<longrightarrow> pendingOf s = max 0 (t - p))
   \<and> 0 \<le> pendingOf s
   \<and> (paidAmount s = Some p \<and> totalFee s = Some t \<and> t \<le> p \<longrightarrow> pendingOf s = 0)"
  using totalPendingFees_sum [of courses] pendingOf_amounts [of s p t] pendingOf_nonneg [of s]
  by auto

theorem totalPendingFees_is_sum_of_pending_witness:
  "totalPendingFees [withStudents math [alice, bob]] = 13000
   \<and> paidAmount bob = Some 5000 \<and> totalFee bob = Some 18000 \<and> pendingOf bob = 13000
   \<and> paidAmount alice = Some 18000 \<and> totalFee alice = Some 18000 \<and> pendingOf alice = 0"
proof -
  have b: "paidAmount bob = Some 5000 \<and> totalFee bob = Some 18000"
    by (simp add: bob_def)
  have a: "paidAmount alice = Some 18000 \<and> totalFee alice = Some 18000"
    by (simp add: alice_def)
  have pb: "pendingOf bob = 13000"
    using totalPendingFees_is_sum_of_pending [of "[]" bob 5000 18000] b by simp
  have pa: "pendingOf alice = 0"
    using totalPendingFees_is_sum_of_pending [of "[]" alice 18000 18000] a by simp
  have "totalPendingFees [withStudents math [alice, bob]] = pendingOf alice + pendingOf bob"
    using totalPendingFees_is_sum_of_pending [of "[withStudents math [alice, bob]]" alice 18000 18000]
    by (simp add: allStudents_def studentsOf_withStudents)
  with a b pa pb show ?thesis by simp
qed

text \<open>
  Claim C6. For every student, \<open>isPaid\<close> holds if and only if both amounts are numbers
  with \<open>paidAmount \<ge> totalFee\<close>, and the student passes the filter of \<open>reminders\<close> if and
  only if both are numbers with \<open>paidAmount < totalFee\<close> (a comparison with a missing
  amount is false in JavaScript). So on numeric amounts \<open>isPaid\<close> is \<open>paidAmount \<ge> totalFee\<close>
  and the filter is \<open>paidAmount < totalFee\<close>; \<open>reminders\<close> counts exactly the students
  that pass the filter, which are the students that are not paid when all amounts are
  numbers.
\<close>

theorem isPaid_iff_and_reminders_count:
  "(isPaid s \<longleftrightarrow> (\<exists>p t. paidAmount s = Some p \<and> totalFee s = Some t \<and> t \<le> p))
   \<and> reminders [withStudents c [s]]
       = (if \<exists>p t. paidAmount s = Some p \<and> totalFee s = Some t \<and> p < t then 1 else 0)
   \<and> (paidAmount s = Some p \<and> totalFee s = Some t \<longrightarrow>
      (isPaid s \<longleftrightarrow> t \<le> p) \<and> (js_lt (paidAmount s) (totalFee s) \<longleftrightarrow> p < t)
      \<and> reminders [withStudents c [s]] = (if p < t then 1 else 0))
   \<and> reminders courses =
       int (length (filter (\<lambda>s. js_lt (paidAmount s) (totalFee s)) (allStudents courses)))
   \<and> (list_all hasAmounts (allStudents courses) \<longrightarrow>
       reminders courses = int (length (filter (\<lambda>s. \<not> isPaid s) (allStudents courses))))"
proof -
  have one: "reminders [withStudents c [s]] = (if js_lt (paidAmount s) (totalFee s) then 1 else 0)"
    by (simp add: reminders_length allStudents_def studentsOf_withStudents)
  have lt: "js_lt (paidAmount s) (totalFee s)
      \<longleftrightarrow> (\<exists>p t. paidAmount s = Some p \<and> totalFee s = Some t \<and> p < t)"
    by (auto simp: js_lt_def split: option.splits)
  have ge: "isPaid s \<longleftrightarrow> (\<exists>p t. paidAmount s = Some p \<and> totalFee s = Some t \<and> t \<le> p)"
    by (auto simp: isPaid_def js_ge_def split: option.splits)
  have all: "list_all hasAmounts (allStudents courses) \<Longrightarrow>
      filter (\<lambda>s. js_lt (paidAmount s) (totalFee s)) (allStudents courses) =
      filter (\<lambda>s. \<not> isPaid s) (allStudents courses)"
    by (rule filter_cong) (auto simp: list_all_iff hasAmounts_lt_iff)
  have num: "paidAmount s = Some p \<and> totalFee s = Some t \<longrightarrow>
      (isPaid s \<longleftrightarrow> t \<le> p) \<and> (js_lt (paidAmount s) (totalFee s) \<longleftrightarrow> p < t)
      \<and> reminders [withStudents c [s]] = (if p < t then 1 else 0)"
    using one by (auto simp: isPaid_def js_ge_def js_lt_def)
  have cnt: "list_all hasAmounts (allStudents courses) \<longrightarrow>
       reminders courses = int (length (filter (\<lambda>s. \<not> isPaid s) (allStudents courses)))"
    using all reminders_length [of courses] by simp
  have one': "reminders [withStudents c [s]]
       = (if \<exists>p t. paidAmount s = Some p \<and> totalFee s = Some t \<and> p < t then 1 else 0)"
    using one lt by simp
  from ge one' num reminders_length [of courses] cnt show ?thesis
    by blast
qed

theorem isPaid_iff_and_reminders_count_witness:
  "isPaid alice \<and> \<not> isPaid bob
   \<and> reminders [withStudents math [bob]] = 1 \<and> reminders [withStudents math [alice]] = 0
   \<and> list_all hasAmounts (allStudents [withStudents math [alice, bob]])
   \<and> reminders [withStudents math [alice, bob]] = 1
   \<and> paidAmount (bob \<lparr> paidAmount := None \<rparr>) = None
   \<and> \<not> isPaid (bob \<lparr> paidAmount := None \<rparr>)
   \<and> reminders [withStudents math [bob \<lparr> paidAmount := None \<rparr>]] = 0"
proof -
  have b: "paidAmount bob = Some 5000 \<and> totalFee bob = Some 18000"
    by (simp add: bob_def)
  have a: "paidAmount alice = Some 18000 \<and> totalFee alice = Some 18000"
    by (simp add: alice_def)
  have m: "paidAmount (bob \<lparr> paidAmount := None \<rparr>) = None"
    by simp
  have h: "list_all hasAmounts (allStudents [withStudents math [alice, bob]])"
    using a b by (simp add: allStudents_def studentsOf_withStudents hasAmounts_def)
  have pb: "\<not> isPaid bob \<and> reminders [withStudents math [bob]] = 1"
    using isPaid_iff_and_reminders_count [of bob math 5000 18000 "[]"] b by simp
  have pa: "isPaid alice \<and> reminders [withStudents math [alice]] = 0"
    using isPaid_iff_and_reminders_count [of alice math 18000 18000 "[]"] a by simp
  have pm: "\<not> isPaid (bob \<lparr> paidAmount := None \<rparr>)
      \<and> reminders [withStudents math [bob \<lparr> paidAmount := None \<rparr>]] = 0"
    using isPaid_iff_and_reminders_count [of "bob \<lparr> paidAmount := None \<rparr>" math 0 0 "[]"] m by simp
  have "reminders [withStudents math [alice, bob]] = 1"
    using isPaid_iff_and_reminders_count [of alice math 18000 18000 "[withStudents math [alice, bob]]"]
      h pa pb
    by (simp add: allStudents_def studentsOf_withStudents)
  with h pa pb pm m show ?thesis by simp
qed

text \<open>
  Claim C9. The four aggregates are defined on every course list, and a course whose
  \<open>students\<close> field is absent counts as a course but adds no student, no pending fee and
  no reminder, wherever it stands in the list.
\<close>

theorem aggregates_skip_absent_students:
  "students c = None \<longrightarrow>
     totalStudents (xs @ c # ys) = totalStudents (xs @ ys)
     \<and> totalPendingFees (xs @ c # ys) = totalPendingFees (xs @ ys)
     \<and> reminders (xs @ c # ys) = reminders (xs @ ys)
     \<and> totalCourses (xs @ c # ys) = totalCourses (xs @ ys) + 1
     \<and> totalStudents [c] = 0 \<and> totalPendingFees [c] = 0 \<and> reminders [c] = 0"
proof
  assume n: "students c = None"
  have e: "allStudents [c] = []"
    using n by (simp add: allStudents_def studentsOf_def)
  show "totalStudents (xs @ c # ys) = totalStudents (xs @ ys)
     \<and> totalPendingFees (xs @ c # ys) = totalPendingFees (xs @ ys)
     \<and> reminders (xs @ c # ys) = reminders (xs @ ys)
     \<and> totalCourses (xs @ c # ys) = totalCourses (xs @ ys) + 1
     \<and> totalStudents [c] = 0 \<and> totalPendingFees [c] = 0 \<and> reminders [c] = 0"
    by (simp add: totalStudents_length totalPendingFees_sum reminders_length
        allStudents_without [OF n] e totalCourses_def)
qed

theorem aggregates_skip_absent_students_witness:
  "students (course.extend math (courseView.fields None)) = None
   \<and> totalStudents [withStudents math [alice, bob], course.extend math (courseView.fields None)] = 2
   \<and> totalPendingFees [withStudents math [alice, bob], course.extend math (courseView.fields None)] = 13000
   \<and> reminders [withStudents math [alice, bob], course.extend math (courseView.fields None)] = 1
   \<and> totalCourses [withStudents math [alice, bob], course.extend math (courseView.fields None)] = 2"
proof -
  have n: "students (course.extend math (courseView.fields None)) = None"
    by (simp add: course.defs courseView.defs)
  have v: "allStudents [withStudents math [alice, bob]] = [alice, bob]"
    by (simp add: allStudents_def studentsOf_withStudents)
  have pa: "pendingOf alice = 0" and pb: "pendingOf bob = 13000"
    by (simp_all add: pendingOf_def js_lt_def alice_def bob_def)
  have la: "\<not> js_lt (paidAmount alice) (totalFee alice)" and lb: "js_lt (paidAmount bob) (totalFee bob)"
    by (simp_all add: js_lt_def alice_def bob_def)
  show ?thesis
    using aggregates_skip_absent_students
      [of "course.extend math (courseView.fields None)" "[withStudents math [alice, bob]]" "[]"] n
    by (simp add: totalStudents_length totalPendingFees_sum reminders_length v pa pb la lb
        totalCourses_def)
qed


section \<open>Saving a student through the form\<close>

text \<open>
  Claim C7. A phone that does not begin with \<open>+\<close> is sent with \<open>+91\<close> in front of it, a
  phone that begins with \<open>+\<close> is sent as it is, and this is the phone of the request that
  \<open>handleSaveStudent\<close> makes.
\<close>

theorem phone_gets_country_code:
  "(\<not> startsWith p ''+'' \<longrightarrow> normalizePhone p = ''+91'' @ p)
   \<and> (startsWith p ''+'' \<longrightarrow> normalizePhone p = p)
   \<and> (startsWith p ''+'' \<longleftrightarrow> p \<noteq> [] \<and> hd p = CHR ''+'')
   \<and> req_phone (saveStudentData form editingStudent selectedCourseId)
       = Some (normalizePhone (form_phone form))"
  by (cases p) (simp_all add: normalizePhone_def startsWith_def saveStudentData_def)

theorem phone_gets_country_code_witness:
  "\<not> startsWith ''9876543210'' ''+'' \<and> normalizePhone ''9876543210'' = ''+919876543210''
   \<and> startsWith ''+19876543210'' ''+'' \<and> normalizePhone ''+19876543210'' = ''+19876543210''
   \<and> req_phone (saveStudentData aliceForm None 0) = Some ''+919876543210''
   \<and> req_phone (saveStudentData bobForm None 0) = Some ''+19876543210''"
proof -
  have a: "\<not> startsWith ''9876543210'' ''+''" and b: "startsWith ''+19876543210'' ''+''"
    by (simp_all add: startsWith_def)
  have fa: "form_phone aliceForm = ''9876543210''" and fb: "form_phone bobForm = ''+19876543210''"
    by (simp_all add: aliceForm_def bobForm_def)
  show ?thesis
    using a b phone_gets_country_code [of "''9876543210''" aliceForm None 0]
      phone_gets_country_code [of "''+19876543210''" bobForm None 0]
    by (simp add: fa fb)
qed

text \<open>
  Claim C10. A total fee that parses to 0 or does not parse becomes 18000, a paid amount
  that is missing, parses to 0 or does not parse becomes 0; the total fee of the request
  is never 0, so neither creating nor updating a student with the data of the form puts
  a student with total fee 0 into a store that has none.
\<close>

theorem form_fee_defaults:
  "(parseInt (form_totalFee form) = None \<or> parseInt (form_totalFee form) = Some 0
      \<longrightarrow> formTotalFee form = 18000)
   \<and> (form_paidAmount form = None
       \<or> (\<exists>v. form_paidAmount form = Some v \<and> (parseInt v = None \<or> parseInt v = Some 0))
      \<longrightarrow> formPaidAmount form = 0)
   \<and> formTotalFee form \<noteq> 0
   \<and> req_totalFee (saveStudentData form editingStudent selectedCourseId) = Some (formTotalFee form)
   \<and> req_paidAmount (saveStudentData form editingStudent selectedCourseId)
       = Some (formPaidAmount form)
   \<and> (noZeroFee st \<longrightarrow>
        noZeroFee (fst (post_student st (saveStudentData form editingStudent selectedCourseId) out))
      \<and> noZeroFee (fst (put_student st i (saveStudentData form editingStudent selectedCourseId) out)))"
proof -
  let ?d = "saveStudentData form editingStudent selectedCourseId"
  have nz: "formTotalFee form \<noteq> 0"
    by (simp add: formTotalFee_def js_or_def split: option.splits)
  have fee: "req_totalFee ?d = Some (formTotalFee form)"
    by (simp add: saveStudentData_def)
  have new: "\<And>k s. newStudent k ?d = Some s \<Longrightarrow> totalFee s \<noteq> Some 0"
    using nz by (auto simp: newStudent_def saveStudentData_def split: option.splits if_splits)
  have upd: "\<And>s. totalFee (updateStudent ?d s) \<noteq> Some 0"
    using nz by (simp add: updateStudent_def saveStudentData_def orKeepOpt_def)
  let ?ss = "fst (findOneAndUpdate (\<lambda>s. s_id s = i) (updateStudent ?d) (Student st))"
  have post: "noZeroFee st \<Longrightarrow> noZeroFee (fst (post_student st ?d out))"
    using new by (cases out) (auto simp: noZeroFee_def post_student_def Let_def split: option.splits)
  have put: "noZeroFee st \<Longrightarrow> noZeroFee (fst (put_student st i ?d out))"
  proof -
    assume z: "noZeroFee st"
    then have "list_all (\<lambda>s. totalFee s \<noteq> Some 0) ?ss"
      unfolding noZeroFee_def by (rule findOneAndUpdate_list_all) (rule upd)
    then have "noZeroFee (st \<lparr> Student := ?ss \<rparr>)"
      by (simp add: noZeroFee_def)
    with z fst_put_student [of st i ?d out] show ?thesis
      by auto
  qed
  have d1: "parseInt (form_totalFee form) = None \<or> parseInt (form_totalFee form) = Some 0
      \<longrightarrow> formTotalFee form = 18000"
    by (auto simp: formTotalFee_def js_or_def)
  have d2: "form_paidAmount form = None
       \<or> (\<exists>v. form_paidAmount form = Some v \<and> (parseInt v = None \<or> parseInt v = Some 0))
      \<longrightarrow> formPaidAmount form = 0"
    by (auto simp: formPaidAmount_def js_or_def)
  have paid: "req_paidAmount ?d = Some (formPaidAmount form)"
    by (simp add: saveStudentData_def)
  from d1 d2 nz fee paid post put show ?thesis by blast
qed

theorem form_fee_defaults_witness:
  "parseInt (form_totalFee (aliceForm \<lparr> form_totalFee := ''0'', form_paidAmount := Some [] \<rparr>)) = Some 0
   \<and> formTotalFee (aliceForm \<lparr> form_totalFee := ''0'', form_paidAmount := Some [] \<rparr>) = 18000
   \<and> formPaidAmount (aliceForm \<lparr> form_totalFee := ''0'', form_paidAmount := Some [] \<rparr>) = 0
   \<and> noZeroFee init
   \<and> noZeroFee (fst (post_student init
        (saveStudentData (aliceForm \<lparr> form_totalFee := ''0'', form_paidAmount := Some [] \<rparr>) None 0)
        Completes))"
proof -
  let ?f = "aliceForm \<lparr> form_totalFee := ''0'', form_paidAmount := Some [] \<rparr>"
  have t: "parseInt (form_totalFee ?f) = Some 0"
    by (simp add: parseInt_0)
  have p: "form_paidAmount ?f = Some [] \<and> parseInt [] = None"
    by (simp add: parseInt_empty)
  have z: "noZeroFee init"
    by (simp add: noZeroFee_def init_def)
  show ?thesis
    using form_fee_defaults [of ?f None 0 init Completes 0] t p z by simp
qed

section \<open>Record service\<close>

text \<open>
  Claim C1, as the code has it. In a store with unique ids, a Delete Course whose
  database calls succeed removes exactly the students with that \<open>courseId\<close> and the course
  with that id, and keeps every other course and student as it is. The list of courses
  right afterwards shows no student with that \<open>courseId\<close>; if a course had the id, that
  stays so after any further requests of which none is a Create Course carrying that
  \<open>_id\<close>.
\<close>

theorem delete_course_cascades:
  "wellFormed st \<and> delete_course st i AllDeleted Completes = (st', r) \<longrightarrow>
     Student st' = filter (\<lambda>s. courseId s \<noteq> i) (Student st)
     \<and> Course st' = filter (\<lambda>c. c_id c \<noteq> i) (Course st)
     \<and> nextId st' = nextId st
     \<and> r = Response 200 (Message ''Course and related students deleted'')
     \<and> i \<notin> courseId ` set (listed (snd (get_courses st' out)))
     \<and> ((i \<in> c_id ` set (Course st) \<or> i < nextId st)
          \<and> list_all (\<lambda>q. \<not> createsCourse i q) rs \<longrightarrow>
          i \<notin> courseId ` set (listed (snd (get_courses (run st' rs) out))))"
proof
  assume h: "wellFormed st \<and> delete_course st i AllDeleted Completes = (st', r)"
  then have d: "distinct (map c_id (Course st))"
    by (simp add: wellFormed_def)
  from h have st': "st' = st \<lparr> Student := filter (\<lambda>s. courseId s \<noteq> i) (Student st),
                               Course := findOneAndDelete (\<lambda>c. c_id c = i) (Course st) \<rparr>"
    and r: "r = Response 200 (Message ''Course and related students deleted'')"
    by (auto simp: delete_course_def deleteMany_def Let_def)
  have c: "Course st' = filter (\<lambda>c. c_id c \<noteq> i) (Course st)"
    using st' findOneAndDelete_filter [OF d, of i] by simp
  have now: "i \<notin> courseId ` set (listed (snd (get_courses st' out)))"
  proof
    assume "i \<in> courseId ` set (listed (snd (get_courses st' out)))"
    then obtain s where "s \<in> set (listed (snd (get_courses st' out)))" and "courseId s = i"
      by auto
    then have "i \<in> c_id ` set (Course st')"
      using listed_get_courses [of s st' out] by simp
    with c show False
      by auto
  qed
  have l: "i \<notin> courseId ` set (listed (snd (get_courses (run st' rs) out)))"
    if "(i \<in> c_id ` set (Course st) \<or> i < nextId st)
        \<and> list_all (\<lambda>q. \<not> createsCourse i q) rs"
  proof -
    from that h have "i < nextId st"
      by (auto dest: wellFormed_issued)
    then have "gone i st'"
      using c st' by (auto simp: gone_def)
    with that have "gone i (run st' rs)"
      by (simp add: gone_run)
    then show ?thesis
      using listed_get_courses [of _ "run st' rs" out] by (auto simp: gone_def)
  qed
  show "Student st' = filter (\<lambda>s. courseId s \<noteq> i) (Student st)
     \<and> Course st' = filter (\<lambda>c. c_id c \<noteq> i) (Course st)
     \<and> nextId st' = nextId st
     \<and> r = Response 200 (Message ''Course and related students deleted'')
     \<and> i \<notin> courseId ` set (listed (snd (get_courses st' out)))
     \<and> ((i \<in> c_id ` set (Course st) \<or> i < nextId st)
          \<and> list_all (\<lambda>q. \<not> createsCourse i q) rs \<longrightarrow>
          i \<notin> courseId ` set (listed (snd (get_courses (run st' rs) out))))"
    using st' c r now l by simp
qed

theorem delete_course_cascades_witness:
  "wellFormed twoCourses
   \<and> delete_course twoCourses 0 AllDeleted Completes
       = (\<lparr> Course = [physics], Student = [carol], nextId = 5 \<rparr>,
          Response 200 (Message ''Course and related students deleted''))
   \<and> 0 \<in> c_id ` set (Course twoCourses)
   \<and> list_all (\<lambda>q. \<not> createsCourse 0 q)
        [PostStudent (saveStudentData bobForm None 0) Completes, PostCourse mathBody Completes]
   \<and> 0 \<notin> courseId ` set (listed (snd (get_courses
         (run \<lparr> Course = [physics], Student = [carol], nextId = 5 \<rparr>
            [PostStudent (saveStudentData bobForm None 0) Completes, PostCourse mathBody Completes])
         Completes)))"
proof -
  let ?st' = "\<lparr> Course = [physics], Student = [carol], nextId = 5 \<rparr>"
  let ?rs = "[PostStudent (saveStudentData bobForm None 0) Completes, PostCourse mathBody Completes]"
  have e: "delete_course twoCourses 0 AllDeleted Completes
       = (?st', Response 200 (Message ''Course and related students deleted''))"
    by (simp add: delete_course_def deleteMany_def twoCourses_def math_def physics_def
        alice_def bob_def carol_def)
  have n: "0 \<in> c_id ` set (Course twoCourses)"
    by (simp add: twoCourses_def math_def)
  have q: "list_all (\<lambda>q. \<not> createsCourse 0 q) ?rs"
    by (simp add: mathBody_def)
  have "0 \<notin> courseId ` set (listed (snd (get_courses (run ?st' ?rs) Completes)))"
    using delete_course_cascades [of twoCourses 0 ?st'
        "Response 200 (Message ''Course and related students deleted'')" Completes ?rs]
      wellFormed_twoCourses e n q
    by blast
  with wellFormed_twoCourses e n q show ?thesis
    by blast
qed

theorem delete_course_recreated_counterexample:
  "delete_course twoCourses 0 AllDeleted Completes
       = (\<lparr> Course = [physics], Student = [carol], nextId = 5 \<rparr>,
          Response 200 (Message ''Course and related students deleted''))
   \<and> listed (snd (get_courses
         (run \<lparr> Course = [physics], Student = [carol], nextId = 5 \<rparr>
            [PostStudent (saveStudentData bobForm None 0) Completes,
             PostCourse (mathBody \<lparr> req_c_id := Some 0 \<rparr>) Completes])
         Completes))
       = [carol, bob \<lparr> s_id := 5 \<rparr>]
   \<and> courseId (bob \<lparr> s_id := 5 \<rparr>) = 0"
  by (simp add: delete_course_def deleteMany_def twoCourses_def math_def physics_def
      alice_def bob_def carol_def post_student_def post_course_def newStudent_def newCourse_def
      newId_def castable_def castDate_def requiredString_def saveStudentData_def bobForm_def
      mathBody_def formTotalFee_def formPaidAmount_def parseInt_18000 parseInt_5000
      normalizePhone_international js_or_def get_courses_def listed_def allStudents_def
      studentsOf_withStudents)

text \<open>
  Claim C4. When the deletion of the students fails, Delete Course answers with a
  server error and the collection of courses is what it was, whatever the deletion of
  the students had already removed.
\<close>

theorem delete_course_aborts_when_students_fail:
  "Course (fst (delete_course st i (ThrowsAfter k) outCourse)) = Course st
   \<and> snd (delete_course st i (ThrowsAfter k) outCourse) = Response 500 (ErrorMessage StorageError)"
  by (simp add: delete_course_def)

theorem delete_course_aborts_when_students_fail_witness:
  "Course (fst (delete_course twoCourses 0 (ThrowsAfter 1) Completes)) = [math, physics]
   \<and> Student (fst (delete_course twoCourses 0 (ThrowsAfter 1) Completes)) = [carol, bob]
   \<and> snd (delete_course twoCourses 0 (ThrowsAfter 1) Completes)
       = Response 500 (ErrorMessage StorageError)"
proof -
  have c: "Course twoCourses = [math, physics]"
    by (simp add: twoCourses_def)
  have s: "Student (fst (delete_course twoCourses 0 (ThrowsAfter 1) Completes)) = [carol, bob]"
    by (simp add: delete_course_def twoCourses_def alice_def)
  show ?thesis
    using delete_course_aborts_when_students_fail [of twoCourses 0 1 Completes] c s
    by simp
qed

text \<open>
  Claim C8. Delete Student with an id that no stored student has answers 200 and
  changes nothing; with any id it leaves the courses as they are and, in a store with
  unique ids, removes only the student with that id, so that deleting the same id again
  answers 200 and changes nothing.
\<close>

theorem delete_student_idempotent:
  "(i \<notin> s_id ` set (Student st) \<longrightarrow>
      delete_student st i Completes = (st, Response 200 (Message ''Student deleted'')))
   \<and> Course (fst (delete_student st i out)) = Course st
   \<and> (wellFormed st \<longrightarrow>
        Student (fst (delete_student st i Completes)) = filter (\<lambda>s. s_id s \<noteq> i) (Student st)
        \<and> delete_student (fst (delete_student st i Completes)) i Completes
            = (fst (delete_student st i Completes), Response 200 (Message ''Student deleted'')))"
proof -
  have unknown: "delete_student st' i Completes = (st', Response 200 (Message ''Student deleted''))"
    if "i \<notin> s_id ` set (Student st')" for st'
  proof -
    from that have "list_all (\<lambda>s. \<not> s_id s = i) (Student st')"
      by (auto simp: list_all_iff)
    then have "findOneAndDelete (\<lambda>s. s_id s = i) (Student st') = Student st'"
      by (rule findOneAndDelete_none)
    then show ?thesis
      by (simp add: delete_student_def)
  qed
  have courses: "Course (fst (delete_student st i out)) = Course st"
    by (cases out) (simp_all add: delete_student_def)
  have again: "Student (fst (delete_student st i Completes)) = filter (\<lambda>s. s_id s \<noteq> i) (Student st)
        \<and> delete_student (fst (delete_student st i Completes)) i Completes
            = (fst (delete_student st i Completes), Response 200 (Message ''Student deleted''))"
    if w: "wellFormed st"
  proof -
    from w have "distinct (map s_id (Student st))"
      by (simp add: wellFormed_def)
    then have f: "Student (fst (delete_student st i Completes))
        = filter (\<lambda>s. s_id s \<noteq> i) (Student st)"
      by (simp add: delete_student_def findOneAndDelete_filter)
    then have "i \<notin> s_id ` set (Student (fst (delete_student st i Completes)))"
      by auto
    with f show ?thesis
      using unknown by simp
  qed
  from unknown [of st] courses again show ?thesis by blast
qed

theorem delete_student_idempotent_witness:
  "7 \<notin> s_id ` set (Student twoCourses)
   \<and> delete_student twoCourses 7 Completes = (twoCourses, Response 200 (Message ''Student deleted''))
   \<and> wellFormed twoCourses
   \<and> Student (fst (delete_student twoCourses 4 Completes)) = [alice, bob]
   \<and> delete_student (fst (delete_student twoCourses 4 Completes)) 4 Completes
       = (fst (delete_student twoCourses 4 Completes), Response 200 (Message ''Student deleted''))"
proof -
  have u: "7 \<notin> s_id ` set (Student twoCourses)"
    by (simp add: twoCourses_def alice_def bob_def carol_def)
  have f: "filter (\<lambda>s. s_id s \<noteq> 4) (Student twoCourses) = [alice, bob]"
    by (simp add: twoCourses_def alice_def bob_def carol_def)
  show ?thesis
    using delete_student_idempotent [of 7 twoCourses Completes]
      delete_student_idempotent [of 4 twoCourses Completes] u f wellFormed_twoCourses
    by simp
qed

text \<open>
  Claim C3, as the code has it. Create Student fails with a validation error, and
  stores nothing, when name, email or courseId is missing or joinDate does not cast.
  Otherwise, if the \<open>_id\<close> it takes is not in use and the database call succeeds, it stores
  the student and answers 201 for every courseId, since the handler never looks the
  course up.
\<close>

theorem create_student_checks_presence_only:
  "(req_courseId b = None \<or> \<not> requiredString (req_name b) \<or> \<not> requiredString (req_email b)
      \<or> req_joinDate b = Some Uncastable \<longrightarrow>
      snd (post_student st b out) = Response 400 (ErrorMessage ValidationError)
      \<and> Student (fst (post_student st b out)) = Student st
      \<and> Course (fst (post_student st b out)) = Course st)
   \<and> (req_courseId b = Some cid \<and> requiredString (req_name b) \<and> requiredString (req_email b)
      \<and> req_joinDate b \<noteq> Some Uncastable
      \<and> newId (req_s_id b) st \<notin> s_id ` set (Student st) \<longrightarrow>
      (\<exists>s. newStudent (newId (req_s_id b) st) b = Some s
          \<and> courseId s = cid \<and> s_id s = newId (req_s_id b) st
          \<and> post_student st b Completes
              = (st \<lparr> nextId := Suc (max (nextId st) (newId (req_s_id b) st)),
                      Student := Student st @ [s] \<rparr>,
                 Response 201 (StudentJson (Some s)))))"
proof -
  have bad: "newStudent (newId (req_s_id b) st) b = None"
    if "req_courseId b = None \<or> \<not> requiredString (req_name b) \<or> \<not> requiredString (req_email b)
        \<or> req_joinDate b = Some Uncastable"
    using that
    by (auto simp: newStudent_def requiredString_def castable_def split: option.splits)
  have good: "\<exists>s. newStudent (newId (req_s_id b) st) b = Some s \<and> courseId s = cid
        \<and> s_id s = newId (req_s_id b) st"
    if "req_courseId b = Some cid \<and> requiredString (req_name b) \<and> requiredString (req_email b)
        \<and> req_joinDate b \<noteq> Some Uncastable"
    using that
    by (auto simp: newStudent_def requiredString_def castable_def
             split: option.splits dateInput.splits)
  show ?thesis
    using bad good by (auto simp: post_student_def Let_def)
qed

theorem create_student_checks_presence_only_witness:
  "req_courseId (saveStudentData bobForm None 7) = Some 7
   \<and> requiredString (req_name (saveStudentData bobForm None 7))
   \<and> requiredString (req_email (saveStudentData bobForm None 7))
   \<and> req_joinDate (saveStudentData bobForm None 7) \<noteq> Some Uncastable
   \<and> newId (req_s_id (saveStudentData bobForm None 7)) init \<notin> s_id ` set (Student init)
   \<and> status (snd (post_student init (saveStudentData bobForm None 7) Completes)) = 201
   \<and> length (Student (fst (post_student init (saveStudentData bobForm None 7) Completes))) = 1
   \<and> req_joinDate ((saveStudentData bobForm None 7) \<lparr> req_joinDate := Some Uncastable \<rparr>)
       = Some Uncastable
   \<and> post_student init ((saveStudentData bobForm None 7) \<lparr> req_joinDate := Some Uncastable \<rparr>)
        Completes
       = (init \<lparr> nextId := 1 \<rparr>, Response 400 (ErrorMessage ValidationError))"
proof -
  let ?b = "saveStudentData bobForm None 7"
  let ?c = "?b \<lparr> req_joinDate := Some Uncastable \<rparr>"
  have p: "req_courseId ?b = Some 7 \<and> requiredString (req_name ?b) \<and> requiredString (req_email ?b)
      \<and> req_joinDate ?b \<noteq> Some Uncastable
      \<and> newId (req_s_id ?b) init \<notin> s_id ` set (Student init)"
    by (simp add: saveStudentData_def bobForm_def requiredString_def init_def)
  have q: "req_joinDate ?c = Some Uncastable"
    by simp
  have n: "fst (post_student init ?c Completes) = init \<lparr> nextId := 1 \<rparr>"
    by (simp add: post_student_def newStudent_def init_def saveStudentData_def newId_def
        castable_def)
  have "\<exists>s. post_student init ?b Completes
           = (init \<lparr> nextId := Suc (max (nextId init) (newId (req_s_id ?b) init)),
                     Student := Student init @ [s] \<rparr>,
              Response 201 (StudentJson (Some s)))"
    using create_student_checks_presence_only [of ?b init Completes 7] p by blast
  then have good: "status (snd (post_student init ?b Completes)) = 201
      \<and> length (Student (fst (post_student init ?b Completes))) = 1"
    by (auto simp: init_def)
  have "snd (post_student init ?c Completes) = Response 400 (ErrorMessage ValidationError)"
    using create_student_checks_presence_only [of ?c init Completes 7] q
    by blast
  with n have bad: "post_student init ?c Completes
       = (init \<lparr> nextId := 1 \<rparr>, Response 400 (ErrorMessage ValidationError))"
    by (simp add: prod_eq_iff)
  from p q good bad show ?thesis
    by blast
qed

theorem create_student_unknown_course_counterexample:
  "Course init = []
   \<and> req_courseId (saveStudentData bobForm None 7) = Some 7
   \<and> post_student init (saveStudentData bobForm None 7) Completes
       = (\<lparr> Course = [], Student = [bob \<lparr> s_id := 0, courseId := 7 \<rparr>], nextId = 1 \<rparr>,
          Response 201 (StudentJson (Some (bob \<lparr> s_id := 0, courseId := 7 \<rparr>))))"
  by (simp add: init_def post_student_def newStudent_def saveStudentData_def bobForm_def bob_def
      requiredString_def formTotalFee_def formPaidAmount_def parseInt_18000 parseInt_5000
      normalizePhone_international js_or_def newId_def castable_def castDate_def)

text \<open>
  Claim C5, as the code has it. Update Course and Update Student with an id that no
  stored record has, a body whose dates cast and a database call that succeeds, answer
  200 with \<open>null\<close> and change nothing; with a date that does not cast they answer 400
  and change nothing.
\<close>

theorem update_unknown_id_answers_null:
  "(i \<notin> c_id ` set (Course st) \<and> castable (req_startDate cb) \<and> castable (req_endDate cb) \<longrightarrow>
      put_course st i cb Completes = (st, Response 200 (CourseJson None)))
   \<and> (i \<notin> s_id ` set (Student st) \<and> castable (req_joinDate sb) \<longrightarrow>
      put_student st i sb Completes = (st, Response 200 (StudentJson None)))
   \<and> (\<not> (castable (req_startDate cb) \<and> castable (req_endDate cb)) \<longrightarrow>
      put_course st i cb out = (st, Response 400 (ErrorMessage CastError)))
   \<and> (\<not> castable (req_joinDate sb) \<longrightarrow>
      put_student st i sb out = (st, Response 400 (ErrorMessage CastError)))"
proof -
  have c: "findOneAndUpdate (\<lambda>c. c_id c = i) (updateCourse cb) (Course st) = (Course st, None)"
    if "i \<notin> c_id ` set (Course st)"
    by (rule findOneAndUpdate_none) (use that in \<open>auto simp: list_all_iff\<close>)
  have s: "findOneAndUpdate (\<lambda>s. s_id s = i) (updateStudent sb) (Student st) = (Student st, None)"
    if "i \<notin> s_id ` set (Student st)"
    by (rule findOneAndUpdate_none) (use that in \<open>auto simp: list_all_iff\<close>)
  show ?thesis
    using c s by (auto simp: put_course_def put_student_def changesId_def split: option.splits)
qed

theorem update_unknown_id_answers_null_witness:
  "9 \<notin> c_id ` set (Course twoCourses) \<and> 9 \<notin> s_id ` set (Student twoCourses)
   \<and> castable (req_startDate mathBody) \<and> castable (req_endDate mathBody)
   \<and> castable (req_joinDate (saveStudentData bobForm None 0))
   \<and> put_course twoCourses 9 mathBody Completes = (twoCourses, Response 200 (CourseJson None))
   \<and> put_student twoCourses 9 (saveStudentData bobForm None 0) Completes
       = (twoCourses, Response 200 (StudentJson None))
   \<and> \<not> castable (req_joinDate ((saveStudentData bobForm None 0) \<lparr> req_joinDate := Some Uncastable \<rparr>))
   \<and> put_student twoCourses 9 ((saveStudentData bobForm None 0) \<lparr> req_joinDate := Some Uncastable \<rparr>)
        Completes
       = (twoCourses, Response 400 (ErrorMessage CastError))"
proof -
  have u: "9 \<notin> c_id ` set (Course twoCourses) \<and> 9 \<notin> s_id ` set (Student twoCourses)"
    by (simp add: twoCourses_def math_def physics_def alice_def bob_def carol_def)
  have k: "castable (req_startDate mathBody) \<and> castable (req_endDate mathBody)
      \<and> castable (req_joinDate (saveStudentData bobForm None 0))"
    by (simp add: castable_def mathBody_def saveStudentData_def bobForm_def)
  have n: "\<not> castable (req_joinDate ((saveStudentData bobForm None 0) \<lparr> req_joinDate := Some Uncastable \<rparr>))"
    by (simp add: castable_def)
  show ?thesis
    using update_unknown_id_answers_null
        [of 9 twoCourses mathBody "saveStudentData bobForm None 0"]
      update_unknown_id_answers_null
        [of 9 twoCourses mathBody
            "(saveStudentData bobForm None 0) \<lparr> req_joinDate := Some Uncastable \<rparr>" Completes]
      u k n
    by simp
qed

theorem update_unknown_id_counterexample:
  "Course init = [] \<and> Student init = []
   \<and> put_course init 9 mathBody Completes = (init, Response 200 (CourseJson None))
   \<and> put_student init 9 (saveStudentData bobForm None 0) Completes
       = (init, Response 200 (StudentJson None))"
  by (simp add: init_def put_course_def put_student_def castable_def changesId_def mathBody_def
      saveStudentData_def bobForm_def)

end
